theory Spec2Isabelle
  imports Main "HOL-Library.Char_ord" "HOL-Library.List_Lexorder"
begin

section \<open>BookmarkServer.py: a shallow embedding\<close>

text \<open>
  The program is one Python module: a dictionary \<open>MEMORY\<close> from short names to long
  URIs, the two helpers \<open>auto_prefix\<close> and \<open>check_uri\<close>, and the request handlers
  \<open>do_GET\<close> and \<open>do_POST\<close> of the class \<open>Shortener\<close>.

  A Python \<open>str\<close> is represented by the list of the bytes of its UTF-8 encoding.
  Every string operation the module performs (searching for and splitting at an ASCII
  character, concatenation, equality, removing ASCII characters, comparison for
  \<open>sorted\<close>) gives the same result on the UTF-8 bytes as on the code points.

  An exception that leaves a function is the \<open>Inl\<close> branch of its result. A call that
  never returns (a GET that waits for ever) is the value \<open>NeverReturns\<close>.
\<close>

datatype error = ValueError | IndexError | KeyError | NeverReturns

subsection \<open>String primitives of Python\<close>

text \<open>\<^verbatim>\<open>s.find(c)\<close>: the index of the first occurrence, or \<open>-1\<close>.\<close>

fun find_char :: "char \<Rightarrow> string \<Rightarrow> int" where
  "find_char c [] = -1"
| "find_char c (x # xs) =
     (if x = c then 0
      else (let i = find_char c xs in if i < 0 then -1 else i + 1))"


text \<open>\<^verbatim>\<open>s.partition(sep)\<close>: head, whether the separator occurs, tail.\<close>

definition partition_char :: "char \<Rightarrow> string \<Rightarrow> string \<times> bool \<times> string" where
  "partition_char sep s =
     (takeWhile (\<lambda>c. c \<noteq> sep) s, sep \<in> set s, drop 1 (dropWhile (\<lambda>c. c \<noteq> sep) s))"

text \<open>\<^verbatim>\<open>sep.join(xs)\<close>.\<close>

fun join :: "string \<Rightarrow> string list \<Rightarrow> string" where
  "join sep [] = []"
| "join sep [x] = x"
| "join sep (x # y # ys) = x @ sep @ join sep (y # ys)"

definition is_ascii :: "string \<Rightarrow> bool" where
  "is_ascii s = list_all (\<lambda>c. (of_char c :: nat) < 128) s"

text \<open>\<^verbatim>\<open>c.isascii() and c.isalpha()\<close>: an ASCII letter.\<close>

definition ascii_alpha :: "char \<Rightarrow> bool" where
  "ascii_alpha c =
     (c \<in> set ''abcdefghijklmnopqrstuvwxyzABCDEFGHIJKLMNOPQRSTUVWXYZ'')"

text \<open>\<^verbatim>\<open>str.lower()\<close> on the characters a scheme can hold (all ASCII).\<close>

definition ascii_lower :: "char \<Rightarrow> char" where
  "ascii_lower c =
     (if c \<in> set ''ABCDEFGHIJKLMNOPQRSTUVWXYZ''
      then char_of ((of_char c :: nat) + 32) else c)"

subsection \<open>The library functions the module calls\<close>

text \<open>
  Three library functions are not modelled but taken as parameters, collected in a
  record: \<open>urllib.parse._check_bracketed_host\<close> (built on \<open>re\<close> and \<open>ipaddress\<close>;
  \<open>True\<close> when it returns, \<open>False\<close> when it raises ValueError), the NFKC test of
  \<open>urllib.parse._checknetloc\<close> on a netloc that is not ASCII (built on
  \<open>unicodedata\<close>; \<open>True\<close> when it returns), and \<open>urllib.parse.unquote\<close>
  (percent-decoding with UTF-8 decoding, errors replaced).
\<close>

record lib =
  check_bracketed_host :: "string \<Rightarrow> bool"
  nfkc_clean :: "string \<Rightarrow> bool"
  unquote :: "string \<Rightarrow> string"

text \<open>
  \<open>urllib.parse.urlsplit\<close> of CPython 3.11, as far as the scheme, the netloc and the
  ValueErrors go. \<open>urlparse\<close> returns the same scheme and netloc and raises exactly
  when \<open>urlsplit\<close> does; the module reads the scheme only.
\<close>

definition scheme_chars :: string where
  "scheme_chars = ''abcdefghijklmnopqrstuvwxyzABCDEFGHIJKLMNOPQRSTUVWXYZ0123456789+-.''"

record parse_result =
  scheme :: string
  netloc :: string

text \<open>\<^verbatim>\<open>url.lstrip(_WHATWG_C0_CONTROL_OR_SPACE)\<close>: code points 0 to 32.\<close>

definition lstrip_c0 :: "string \<Rightarrow> string" where
  "lstrip_c0 url = dropWhile (\<lambda>c. (of_char c :: nat) \<le> 32) url"

text \<open>Tab, carriage return and line feed are removed wherever they occur.\<close>

definition remove_unsafe :: "string \<Rightarrow> string" where
  "remove_unsafe url =
     filter (\<lambda>c. c \<noteq> CHR 0x09 \<and> c \<noteq> CHR 0x0D \<and> c \<noteq> CHR 0x0A) url"

text \<open>
  The scheme is split off when the text before the first colon is not empty, starts
  with an ASCII letter and holds scheme characters only. The result is the scheme and
  the rest of the url.
\<close>

definition split_scheme :: "string \<Rightarrow> string \<times> string" where
  "split_scheme url =
     (let i = find_char (CHR '':'') url in
      if 0 < i \<and> (case url of [] \<Rightarrow> False | c # _ \<Rightarrow> ascii_alpha c)
           \<and> list_all (\<lambda>c. c \<in> set scheme_chars) (take (nat i) url)
      then (map ascii_lower (take (nat i) url), drop (nat i + 1) url)
      else ([], url))"

text \<open>\<^verbatim>\<open>_splitnetloc(url, 2)\<close>: from index 2 to the first of \<open>/ ? #\<close>.\<close>

definition splitnetloc :: "string \<Rightarrow> string" where
  "splitnetloc url =
     takeWhile (\<lambda>c. c \<noteq> CHR ''/'' \<and> c \<noteq> CHR ''?'' \<and> c \<noteq> CHR ''#'') (drop 2 url)"

text \<open>\<^verbatim>\<open>netloc.partition('[')[2].partition(']')[0]\<close>.\<close>

definition bracketed_host :: "string \<Rightarrow> string" where
  "bracketed_host nl =
     fst (partition_char (CHR '']'') (snd (snd (partition_char (CHR ''['') nl))))"

definition checknetloc :: "lib \<Rightarrow> string \<Rightarrow> bool" where
  "checknetloc L nl = (if nl = [] \<or> is_ascii nl then True else nfkc_clean L nl)"

definition urlsplit :: "lib \<Rightarrow> string \<Rightarrow> error + parse_result" where
  "urlsplit L url0 =
     (let url = remove_unsafe (lstrip_c0 url0);
          (sch, rest) = split_scheme url
      in if take 2 rest = ''//''
         then (let nl = splitnetloc rest in
               if (CHR ''['' \<in> set nl \<and> CHR '']'' \<notin> set nl)
                  \<or> (CHR '']'' \<in> set nl \<and> CHR ''['' \<notin> set nl)
               then Inl ValueError
               else if CHR ''['' \<in> set nl \<and> CHR '']'' \<in> set nl
                       \<and> \<not> check_bracketed_host L (bracketed_host nl)
               then Inl ValueError
               else if \<not> checknetloc L nl then Inl ValueError
               else Inr \<lparr>scheme = sch, netloc = nl\<rparr>)
         else Inr \<lparr>scheme = sch, netloc = []\<rparr>)"

definition urlparse :: "lib \<Rightarrow> string \<Rightarrow> error + parse_result" where
  "urlparse L url = urlsplit L url"

subsection \<open>auto\_prefix\<close>

text \<open>
  \<^verbatim>\<open>
  def auto_prefix(uri):
      final_uri = uri
      parsed = urlparse(uri)
      if parsed.scheme == '':
          final_uri = "https://" + uri
          return final_uri
      else:
          return final_uri
  \<close>
\<close>

definition auto_prefix :: "lib \<Rightarrow> string \<Rightarrow> error + string" where
  "auto_prefix L uri =
     (case urlparse L uri of
        Inl e \<Rightarrow> Inl e
      | Inr parsed \<Rightarrow>
          if scheme parsed = [] then Inr (''https://'' @ uri) else Inr uri)"

subsection \<open>The HTTP client\<close>

text \<open>
  \<open>requests.get(url, timeout=None)\<close> is the network: a parameter. It answers with a
  response (of which the module reads the status code), raises an exception of the
  class \<open>requests.RequestException\<close> (every exception that \<open>requests\<close> raises itself
  is one), or does not return. The second argument is the timeout in seconds;
  \<open>None\<close>, the default of \<open>requests.get\<close>, waits without limit.
\<close>

datatype request_exception =
  Timeout | ConnectionError | InvalidURL | MissingSchema | InvalidSchema | TooManyRedirects

datatype get_result = Response nat | Raised request_exception | NoReturn

type_synonym http_get = "string \<Rightarrow> nat option \<Rightarrow> get_result"

subsection \<open>check\_uri\<close>

text \<open>
  \<^verbatim>\<open>
  def check_uri(uri):
      final_uri = auto_prefix(uri)
      try:
          req = requests.get(final_uri)
          return req.status_code
      except requests.RequestException:
          return False
  \<close>
  The function returns the status code itself, an \<open>int\<close>, or \<open>False\<close>; the caller
  tests the result for truth, and an \<open>int\<close> is true when it is not zero.
\<close>

datatype check_result = StatusCode nat | PyFalse

fun truthy :: "check_result \<Rightarrow> bool" where
  "truthy (StatusCode n) = (n \<noteq> 0)"
| "truthy PyFalse = False"

definition check_uri :: "lib \<Rightarrow> http_get \<Rightarrow> string \<Rightarrow> error + check_result" where
  "check_uri L get uri =
     (case auto_prefix L uri of
        Inl e \<Rightarrow> Inl e
      | Inr final_uri \<Rightarrow>
          (case get final_uri None of
             Response code \<Rightarrow> Inr (StatusCode code)
           | Raised _ \<Rightarrow> Inr PyFalse
           | NoReturn \<Rightarrow> Inl NeverReturns))"

subsection \<open>Dictionaries\<close>

text \<open>
  A Python \<open>dict\<close> is an association list in insertion order: assigning to a key
  that is present replaces its value in place, assigning to a new key appends.
\<close>

type_synonym ('k, 'v) dict = "('k \<times> 'v) list"

fun dict_set :: "('k, 'v) dict \<Rightarrow> 'k \<Rightarrow> 'v \<Rightarrow> ('k, 'v) dict" where
  "dict_set [] k v = [(k, v)]"
| "dict_set ((k', v') # d) k v =
     (if k' = k then (k, v) # d else (k', v') # dict_set d k v)"


definition dict_get :: "('k, 'v) dict \<Rightarrow> 'k \<Rightarrow> error + 'v" where
  "dict_get d k = (case map_of d k of None \<Rightarrow> Inl KeyError | Some v \<Rightarrow> Inr v)"

definition dict_keys :: "('k, 'v) dict \<Rightarrow> 'k list" where
  "dict_keys d = map fst d"

type_synonym memory = "(string, string) dict"

subsection \<open>parse\_qs\<close>






subsection \<open>The handlers\<close>

record response =
  status :: nat
  headers :: "(string \<times> string) list"
  content :: string

text \<open>
  Lines 124 to 140 of \<open>do_POST\<close>, the registration proper, as a function of the two
  form values \<open>params["shortname"][0]\<close> and \<open>params["longuri"][0]\<close>:
  \<^verbatim>\<open>
  longuri = auto_prefix(params["longuri"][0])
  shortname = params["shortname"][0]
  if check_uri(longuri):
      MEMORY[shortname] = longuri
      self.send_response(303)
      self.send_header('Location', '/')
      self.end_headers()
  else:
      self.send_response(404)
      self.send_header('Content-type', 'text/plain; charset=utf-8')
      self.end_headers()
      self.wfile.write("Couldn't fetch URI '{}'. Sorry!".format(longuri).encode())
  \<close>
  The result is the response and the dictionary after the call; when an exception
  leaves the handler, nothing has been assigned.
\<close>

definition accepted_response :: response where
  "accepted_response =
     \<lparr>status = 303, headers = [(''Location'', ''/'')], content = []\<rparr>"

definition rejected_response :: "string \<Rightarrow> response" where
  "rejected_response longuri =
     \<lparr>status = 404, headers = [(''Content-type'', ''text/plain; charset=utf-8'')],
      content = ''Couldn't fetch URI '' @ CHR 0x27 # longuri @ CHR 0x27 # ''. Sorry!''\<rparr>"

definition register :: "lib \<Rightarrow> http_get \<Rightarrow> memory \<Rightarrow> string \<Rightarrow> string \<Rightarrow> error + response \<times> memory" where
  "register L get MEMORY shortname rawuri =
     (case auto_prefix L rawuri of
        Inl e \<Rightarrow> Inl e
      | Inr longuri \<Rightarrow>
          (case check_uri L get longuri of
             Inl e \<Rightarrow> Inl e
           | Inr ok \<Rightarrow>
               if truthy ok
               then Inr (accepted_response, dict_set MEMORY shortname longuri)
               else Inr (rejected_response longuri, MEMORY)))"




text \<open>
  The lookup of \<open>do_GET\<close> for a name that is not empty (lines 88 to 98); the read
  \<open>MEMORY[name]\<close> is guarded by \<open>name in MEMORY\<close>.
\<close>

definition found_response :: "string \<Rightarrow> response" where
  "found_response longuri =
     \<lparr>status = 303, headers = [(''Location'', longuri)], content = []\<rparr>"

definition not_found_response :: "string \<Rightarrow> response" where
  "not_found_response name =
     \<lparr>status = 404, headers = [(''Content-type'', ''text/plain; charset=utf-8'')],
      content = ''I don't know '' @ CHR 0x27 # name @ CHR 0x27 # ''.''\<rparr>"

definition resolve :: "memory \<Rightarrow> string \<Rightarrow> response" where
  "resolve MEMORY name =
     (case map_of MEMORY name of
        Some longuri \<Rightarrow> found_response longuri
      | None \<Rightarrow> not_found_response name)"

text \<open>
  The listing of the root page (lines 105 and 106): the keys sorted, each with the
  value read from the dictionary.
  \<^verbatim>\<open>
  known = "\n".join("{} : {}".format(key, MEMORY[key]) for key in sorted(MEMORY.keys()))
  \<close>
\<close>

fun lookup_each :: "memory \<Rightarrow> string list \<Rightarrow> error + (string \<times> string) list" where
  "lookup_each MEMORY [] = Inr []"
| "lookup_each MEMORY (key # keys) =
     (case dict_get MEMORY key of
        Inl e \<Rightarrow> Inl e
      | Inr v \<Rightarrow>
          (case lookup_each MEMORY keys of
             Inl e \<Rightarrow> Inl e
           | Inr es \<Rightarrow> Inr ((key, v) # es)))"

definition listAll :: "memory \<Rightarrow> error + (string \<times> string) list" where
  "listAll MEMORY = lookup_each MEMORY (sort (dict_keys MEMORY))"

definition known :: "memory \<Rightarrow> error + string" where
  "known MEMORY =
     (case listAll MEMORY of
        Inl e \<Rightarrow> Inl e
      | Inr es \<Rightarrow> Inr (join [CHR 0x0A] (map (\<lambda>e. fst e @ '' : '' @ snd e) es)))"

text \<open>\<open>FORM.format(known)\<close>: the template, its one field replaced by the listing.\<close>

definition FORM_format :: "string \<Rightarrow> string" where
  "FORM_format listing =
     join [CHR 0x0A]
       [''<!DOCTYPE html>'',
        ''<title>Bookmark Server</title>'',
        ''<form method=\"POST\">'',
        ''    <label>Long URI:'',
        ''        <input name=\"longuri\">'',
        ''    </label>'',
        ''    <br>'',
        ''    <label>Short name:'',
        ''        <input name=\"shortname\">'',
        ''    </label>'',
        ''    <br>'',
        ''    <button type=\"submit\">Save it!</button>'',
        ''</form>'',
        ''<p>URIs I know about:'',
        ''<pre>'',
        listing,
        ''</pre>'',
        []]"

text \<open>
  \<open>do_GET\<close>: the name is \<open>unquote(self.path[1:])\<close>, the path without its leading
  slash; a name that is not empty is looked up, the empty name gives the form.
\<close>

definition do_GET :: "lib \<Rightarrow> memory \<Rightarrow> string \<Rightarrow> error + response" where
  "do_GET L MEMORY path =
     (let name = unquote L (drop 1 path) in
      if name \<noteq> [] then Inr (resolve MEMORY name)
      else (case known MEMORY of
              Inl e \<Rightarrow> Inl e
            | Inr listing \<Rightarrow>
                Inr \<lparr>status = 200, headers = [(''Content-type'', ''text/html'')],
                     content = FORM_format listing\<rparr>))"

subsection \<open>Sequences of registrations\<close>

text \<open>
  The dictionary starts empty and only line 129 assigns to it, so its states are those
  reached from \<open>[]\<close> by registrations, each with the network of its moment. A handler
  that raises or never returns leaves the dictionary as it was.
\<close>

type_synonym registration = "http_get \<times> string \<times> string"

definition store_after :: "lib \<Rightarrow> memory \<Rightarrow> registration \<Rightarrow> memory" where
  "store_after L MEMORY r =
     (case register L (fst r) MEMORY (fst (snd r)) (snd (snd r)) of
        Inl e \<Rightarrow> MEMORY
      | Inr out \<Rightarrow> snd out)"

definition is_accepted :: "lib \<Rightarrow> memory \<Rightarrow> registration \<Rightarrow> bool" where
  "is_accepted L MEMORY r =
     (case register L (fst r) MEMORY (fst (snd r)) (snd (snd r)) of
        Inl e \<Rightarrow> False
      | Inr out \<Rightarrow> status (fst out) = 303)"

fun run :: "lib \<Rightarrow> memory \<Rightarrow> registration list \<Rightarrow> memory" where
  "run L MEMORY [] = MEMORY"
| "run L MEMORY (r # rs) = run L (store_after L MEMORY r) rs"

text \<open>The short names of the registrations of a run that were accepted.\<close>

fun accepted_names :: "lib \<Rightarrow> memory \<Rightarrow> registration list \<Rightarrow> string list" where
  "accepted_names L MEMORY [] = []"
| "accepted_names L MEMORY (r # rs) =
     (if is_accepted L MEMORY r then [fst (snd r)] else [])
       @ accepted_names L (store_after L MEMORY r) rs"

text \<open>
  A library instance for concrete evaluation: no bracketed host is accepted, NFKC
  never objects, and unquote is the identity, which is what \<open>unquote\<close> is on a
  string without a percent sign.
\<close>

definition plain_lib :: lib where
  "plain_lib = \<lparr>check_bracketed_host = (\<lambda>_. False), nfkc_clean = (\<lambda>_. True),
                unquote = (\<lambda>s. s)\<rparr>"

text \<open>Networks for concrete evaluation, each the same for every url.\<close>

definition always_status :: "nat \<Rightarrow> http_get" where
  "always_status code url timeout = Response code"

definition always_raises :: "request_exception \<Rightarrow> http_get" where
  "always_raises x url timeout = Raised x"

text \<open>
  A target that never answers: the client gives up when it was given a timeout and
  waits for ever when it was given none.
\<close>

definition patient_server :: http_get where
  "patient_server url timeout =
     (case timeout of None \<Rightarrow> NoReturn | Some t \<Rightarrow> Raised Timeout)"

text \<open>\<open>auto_prefix(auto_prefix(uri))\<close>, an exception of the inner call leaving both.\<close>

definition auto_prefix_twice :: "lib \<Rightarrow> string \<Rightarrow> error + string" where
  "auto_prefix_twice L uri =
     (case auto_prefix L uri of Inl e \<Rightarrow> Inl e | Inr v \<Rightarrow> auto_prefix L v)"


section \<open>Properties\<close>

subsection \<open>Dictionaries and runs\<close>

lemma map_of_dict_set: "map_of (dict_set d k v) = (map_of d)(k \<mapsto> v)"
  by (induction d k v rule: dict_set.induct) auto

lemma dict_set_entry_key:
  "(a, b) \<in> set (dict_set d k v) \<Longrightarrow> a = k \<or> a \<in> fst ` set d"
  by (induction d k v rule: dict_set.induct) (force split: if_splits)+

lemma distinct_dict_set:
  "distinct (map fst d) \<Longrightarrow> distinct (map fst (dict_set d k v))"
  by (induction d k v rule: dict_set.induct) (auto dest: dict_set_entry_key)

lemma status_accepted: "status accepted_response = 303"
  by (simp add: accepted_response_def)

lemma status_rejected: "status (rejected_response v) = 404"
  by (simp add: rejected_response_def)

text \<open>A registration raises, or stores the normalized URI, or leaves the dictionary.\<close>

lemma register_cases:
  "(\<exists>e. register L get m s u = Inl e)
   \<or> (\<exists>v. auto_prefix L u = Inr v
          \<and> register L get m s u = Inr (accepted_response, dict_set m s v))
   \<or> (\<exists>v. auto_prefix L u = Inr v
          \<and> register L get m s u = Inr (rejected_response v, m))"
  by (auto simp: register_def split: sum.splits)

text \<open>A RequestException of the probe rejects and leaves the dictionary.\<close>

lemma register_rejects_request_exception:
  "auto_prefix L u = Inr v \<Longrightarrow> auto_prefix L v = Inr v \<Longrightarrow> get v None = Raised x
     \<Longrightarrow> register L get m s u = Inr (rejected_response v, m)"
  by (simp add: register_def check_uri_def)

lemma store_after_cases:
  "(is_accepted L m r
      \<and> (\<exists>v. auto_prefix L (snd (snd r)) = Inr v
              \<and> store_after L m r = dict_set m (fst (snd r)) v))
   \<or> (\<not> is_accepted L m r \<and> store_after L m r = m)"
  using register_cases [of L "fst r" m "fst (snd r)" "snd (snd r)"]
  by (auto simp: is_accepted_def store_after_def status_accepted status_rejected)

lemma run_frame:
  "s \<notin> set (accepted_names L m rs) \<Longrightarrow> map_of (run L m rs) s = map_of m s"
proof (induction rs arbitrary: m)
  case Nil
  then show ?case by simp
next
  case (Cons r rs)
  from Cons.prems have rest: "s \<notin> set (accepted_names L (store_after L m r) rs)"
    and here: "is_accepted L m r \<Longrightarrow> fst (snd r) \<noteq> s"
    by auto
  have "map_of (store_after L m r) s = map_of m s"
    using store_after_cases [of L m r] here by (auto simp: map_of_dict_set)
  with Cons.IH [OF rest] show ?case by simp
qed

lemma run_distinct:
  "distinct (map fst m) \<Longrightarrow> distinct (map fst (run L m rs))"
proof (induction rs arbitrary: m)
  case Nil
  then show ?case by simp
next
  case (Cons r rs)
  have "distinct (map fst (store_after L m r))"
    using store_after_cases [of L m r] Cons.prems by (auto simp: distinct_dict_set)
  then show ?case using Cons.IH by simp
qed

lemma lookup_each_keys:
  "set ks \<subseteq> set (map fst m) \<Longrightarrow>
   \<exists>es. lookup_each m ks = Inr es \<and> map fst es = ks
        \<and> (\<forall>e \<in> set es. map_of m (fst e) = Some (snd e))"
proof (induction ks)
  case Nil
  then show ?case by simp
next
  case (Cons k ks)
  then obtain es where es: "lookup_each m ks = Inr es" "map fst es = ks"
     "\<forall>e \<in> set es. map_of m (fst e) = Some (snd e)" by auto
  from Cons.prems have "k \<in> fst ` set m" by simp
  then obtain v where "map_of m k = Some v"
    by (metis domD dom_map_of_conv_image_fst)
  then show ?case using es by (simp add: dict_get_def)
qed

subsection \<open>urlsplit on a string that starts with https://\<close>

lemmas eval_defs = auto_prefix_def urlparse_def urlsplit_def lstrip_c0_def remove_unsafe_def
  split_scheme_def scheme_chars_def ascii_alpha_def ascii_lower_def splitnetloc_def
  checknetloc_def is_ascii_def bracketed_host_def partition_char_def

lemma prepare_https:
  "remove_unsafe (lstrip_c0 (''https://'' @ u)) = ''https://'' @ remove_unsafe u"
  by (simp add: remove_unsafe_def lstrip_c0_def)

lemma split_scheme_https: "split_scheme (''https://'' @ v) = (''https'', ''//'' @ v)"
  by (simp add: split_scheme_def ascii_alpha_def scheme_chars_def ascii_lower_def)

lemma urlsplit_https:
  "urlsplit L (''https://'' @ u) = Inl ValueError
   \<or> (\<exists>nl. urlsplit L (''https://'' @ u) = Inr \<lparr>scheme = ''https'', netloc = nl\<rparr>)"
  by (simp add: urlsplit_def Let_def prepare_https [simplified] split_scheme_https [simplified])

lemma auto_prefix_https:
  "auto_prefix L (''https://'' @ u) = Inl ValueError
   \<or> auto_prefix L (''https://'' @ u) = Inr (''https://'' @ u)"
  using urlsplit_https [of L u] by (auto simp: auto_prefix_def urlparse_def)

subsection \<open>parse\_qs\<close>











section \<open>The claims\<close>

text \<open>
  C1 (the code departs from it). Claim: when the probe of the normalized URI completes
  with a status code other than 200, the registration is rejected and the dictionary
  is not changed. \<open>check_uri\<close> returns the status code and \<open>do_POST\<close> tests it for
  truth, so a 404 is accepted: the registration answers 303 and the mapping is stored.
\<close>

theorem register_accepts_status_404:
  "register L (always_status 404) [] ''x'' ''http://example.com/missing''
     = Inr (accepted_response, [(''x'', ''http://example.com/missing'')])"
  by (simp add: register_def check_uri_def always_status_def eval_defs)



text \<open>
  C3 (the code departs from it). Claim: whenever the probe fails, for any reason and
  among them a status that is not a success, the registration is rejected and the
  dictionary is unchanged, a prior mapping surviving. A probe answered with 500 is
  accepted and the prior mapping of the short name is overwritten.
\<close>

theorem register_overwrites_on_status_500:
  "register L (always_status 500) [(''s'', ''https://old.example'')] ''s'' ''new.example''
     = Inr (accepted_response, [(''s'', ''https://new.example'')])"
  by (simp add: register_def check_uri_def always_status_def eval_defs)

text \<open>
  C4 (the code departs from it). Claim: every probe is a GET made with a finite
  timeout, so that a target that is slow or out of reach cannot block the worker for
  ever. The docstring of \<open>check_uri\<close> says as much: the function returns \<open>False\<close>
  when the GET "doesn't return (i.e. times out)". Line 61 calls
  \<open>requests.get(final_uri)\<close> with no timeout: against a target that never answers,
  a client that would give up under any finite timeout is never told to, and
  \<open>check_uri\<close> does not return.
\<close>

theorem check_uri_blocks_on_silent_target:
  "patient_server ''https://example.com'' (Some 5) = Raised Timeout
   \<and> patient_server ''https://example.com'' None = NoReturn
   \<and> check_uri L patient_server ''example.com'' = Inl NeverReturns
   \<and> register L patient_server m s ''example.com'' = Inl NeverReturns"
  by (simp add: register_def check_uri_def patient_server_def eval_defs)

text \<open>
  C5 (as amended). When \<open>auto_prefix\<close> returns \<open>v\<close>, a second application returns \<open>v\<close>
  again unless \<open>urlparse\<close> raises ValueError on \<open>v\<close>.
\<close>

theorem auto_prefix_idempotent_unless_error:
  "auto_prefix L u = Inr v \<Longrightarrow> auto_prefix L v = Inr v \<or> auto_prefix L v = Inl ValueError"
proof -
  assume a: "auto_prefix L u = Inr v"
  then obtain p where p: "urlparse L u = Inr p"
    by (auto simp: auto_prefix_def split: sum.splits)
  show ?thesis
  proof (cases "scheme p = []")
    case True
    with a p have "v = ''https://'' @ u" by (simp add: auto_prefix_def)
    then show ?thesis using auto_prefix_https [of L u] by auto
  next
    case False
    with a p have "v = u" by (simp add: auto_prefix_def)
    then show ?thesis using a by simp
  qed
qed

theorem auto_prefix_idempotent_unless_error_witness:
  "auto_prefix plain_lib ''example.com'' = Inr ''https://example.com''
   \<and> auto_prefix plain_lib ''https://example.com'' = Inr ''https://example.com''"
proof -
  have h: "auto_prefix plain_lib ''example.com'' = Inr ''https://example.com''"
    by (simp add: eval_defs)
  have n: "auto_prefix plain_lib ''https://example.com'' \<noteq> Inl ValueError"
    by (simp add: eval_defs)
  from auto_prefix_idempotent_unless_error [OF h] n h show ?thesis by simp
qed

text \<open>
  The claim as stated fails at the input \<open>[\<close>: the first application returns
  \<open>https://[\<close>, on which the second raises ValueError (Invalid IPv6 URL).
\<close>

theorem auto_prefix_twice_counterexample:
  "auto_prefix_twice plain_lib ''['' \<noteq> auto_prefix plain_lib ''[''"
  by (simp add: auto_prefix_twice_def eval_defs)



text \<open>
  C7. In every state of the dictionary (every state reached from the empty one by
  registrations) the listing returns, its entries are those of the dictionary, sorted
  by short name in ascending order, and no two of them have the same short name.
\<close>

theorem listAll_sorted_distinct:
  "\<exists>es. listAll (run L [] rs) = Inr es \<and> sorted (map fst es) \<and> distinct (map fst es)
        \<and> set es = set (run L [] rs)"
proof -
  let ?m = "run L [] rs"
  have d: "distinct (map fst ?m)" by (rule run_distinct) simp
  have "set (sort (dict_keys ?m)) \<subseteq> set (map fst ?m)" by (simp add: dict_keys_def)
  from lookup_each_keys [OF this]
  obtain es where es: "listAll ?m = Inr es" "map fst es = sort (dict_keys ?m)"
     "\<forall>e \<in> set es. map_of ?m (fst e) = Some (snd e)"
    by (auto simp: listAll_def)
  have s1: "sorted (map fst es)" using es(2) by simp
  have s2: "distinct (map fst es)" using es(2) d by (simp add: dict_keys_def)
  have sub: "set es \<subseteq> set ?m"
  proof
    fix e assume "e \<in> set es"
    with es(3) have "map_of ?m (fst e) = Some (snd e)" by blast
    then have "(fst e, snd e) \<in> set ?m" by (rule map_of_SomeD)
    then show "e \<in> set ?m" by simp
  qed
  have sup: "set ?m \<subseteq> set es"
  proof
    fix e assume e: "e \<in> set ?m"
    then have "fst e \<in> set (map fst es)" using es(2) by (simp add: dict_keys_def)
    then obtain e' where e': "e' \<in> set es" "fst e' = fst e" by auto
    with es(3) have "map_of ?m (fst e) = Some (snd e')" by metis
    moreover have "map_of ?m (fst e) = Some (snd e)" using d e by (cases e) simp
    ultimately have "e' = e" using e'(2) by (simp add: prod_eq_iff)
    with e'(1) show "e \<in> set es" by simp
  qed
  from es(1) s1 s2 sub sup show ?thesis by blast
qed

text \<open>
  C8. A short name for which no registration was accepted, in a run from the empty
  dictionary, is not found: the lookup answers 404.
\<close>

theorem unregistered_not_found:
  "s \<notin> set (accepted_names L [] rs) \<Longrightarrow> resolve (run L [] rs) s = not_found_response s"
  using run_frame [of s L "[]" rs] by (simp add: resolve_def)

theorem unregistered_not_found_witness:
  "''bad'' \<notin> set (accepted_names plain_lib []
       [(always_raises ConnectionError, ''bad'', ''http://nonexistent.invalid.example'')])
   \<and> resolve (run plain_lib []
       [(always_raises ConnectionError, ''bad'', ''http://nonexistent.invalid.example'')]) ''bad''
     = not_found_response ''bad''"
proof -
  have a: "''bad'' \<notin> set (accepted_names plain_lib []
       [(always_raises ConnectionError, ''bad'', ''http://nonexistent.invalid.example'')])"
    by (simp add: is_accepted_def register_def check_uri_def always_raises_def eval_defs
        status_rejected)
  from unregistered_not_found [OF a] a show ?thesis by simp
qed

text \<open>
  C9 (the code departs from it). Claim: every fault of the probe, a malformed URI among
  them, is caught and counted as dead, so that a registration always returns one of
  its outcomes. For the URI \<open>[\<close> line 124 gives \<open>https://[\<close>, and \<open>check_uri\<close>
  normalizes it again on line 59, outside its \<open>try\<close>: the ValueError of \<open>urlparse\<close>
  leaves \<open>check_uri\<close> and the handler, whatever the network and the dictionary.
\<close>

theorem register_propagates_ValueError:
  "auto_prefix L ''['' = Inr ''https://[''
   \<and> check_uri L get ''https://['' = Inl ValueError
   \<and> register L get m s ''['' = Inl ValueError"
  by (simp add: register_def check_uri_def eval_defs)




end
